theory Spec2Isabelle
  imports Complex_Main "HOL-Library.Word"
begin

unbundle bit_operations_syntax

section \<open>The balance-control loop of the rimless wheel (teensy/src/main.cpp)\<close>

text \<open>
  The firmware is a single-threaded Arduino sketch: \<open>setup\<close> runs once, \<open>loop\<close> is
  called again and again. Its state is a handful of file-scope variables; its inputs are
  the replies of the motor controller on the serial line, the inertial sensor events, the
  output of the orientation filter, the millisecond clock, the e-stop pin and the messages
  of the command bus; its outputs are the lines written to the motor controller and the
  messages published on the bus.

  The embedding is by explicit state passing. Every function takes the replies it
  consumes and the record of the file-scope variables, and returns its result, the
  updated record and the list of outputs it produced, in program order.

  C \<open>float\<close> and \<open>double\<close> values are modelled as \<open>real\<close>: rounding, infinities and
  NaN are not modelled. \<open>uint32_t\<close> and \<open>int64_t\<close> are words of that width.
\<close>

subsection \<open>Constants\<close>

type_synonym float = real

definition FILTER_UPDATE_RATE_HZ :: nat where
  "FILTER_UPDATE_RATE_HZ = 100"

text \<open>The macro of \<open>math.h\<close>, with the digits of its definition there.\<close>

definition M_PI :: real where
  "M_PI = 3.14159265358979323846"

text \<open>The macro of \<open>Adafruit_Sensor.h\<close>: degrees per second in a radian per second.\<close>

definition SENSORS_RADS_TO_DPS :: float where
  "SENSORS_RADS_TO_DPS = 57.29577793"

definition k :: float where
  "k = 10.0"

definition alpha :: float where
  "alpha = 360.0 / k / 2.0 * M_PI / 180.0"

definition samplingTime :: float where
  "samplingTime = 1.0 / real FILTER_UPDATE_RATE_HZ"

subsection \<open>File-scope variables\<close>

record globals =
  oldTorsoOmega :: float
  oldSpoke1Angle :: float
  oldSpoke2Angle :: float
  oldSpokeSpeed :: float
  torque0 :: float
  torque1 :: float
  enc0Offset :: float
  enc1Offset :: float
  yawOffset :: float
  timestamp :: "32 word"
  impactOccurredBefore :: bool

text \<open>
  The values the variables have when \<open>setup\<close> starts: their initialisers, and zero for
  \<open>timestamp\<close>, which has none.
\<close>

definition initial :: globals where
  "initial = \<lparr> oldTorsoOmega = 0.0, oldSpoke1Angle = alpha, oldSpoke2Angle = alpha,
      oldSpokeSpeed = 0.0, torque0 = 0.0, torque1 = 0.0, enc0Offset = 0.0,
      enc1Offset = 0.0, yawOffset = 0.0, timestamp = 0, impactOccurredBefore = False \<rparr>"

subsection \<open>Outputs\<close>

datatype control_mode =
  CONTROL_MODE_VOLTAGE_CONTROL | CONTROL_MODE_TORQUE_CONTROL
  | CONTROL_MODE_VELOCITY_CONTROL | CONTROL_MODE_POSITION_CONTROL

datatype axis_state =
  AXIS_STATE_MOTOR_CALIBRATION | AXIS_STATE_ENCODER_OFFSET_CALIBRATION
  | AXIS_STATE_CLOSED_LOOP_CONTROL

datatype sensor = Accelerometer | Gyroscope | Magnetometer

datatype fault_source =
  ODriveErrors | MotorErrors nat | AxisErrors nat | EncoderErrors nat | ControllerErrors nat

text \<open>
  One constructor for each kind of line written to the motor controller, each request to
  a sensor, to the filter, to the clock or to the e-stop pin, and each message published.
  The debug text printed on the USB console is not an output of the model.
\<close>

datatype event =
    WriteAxisError nat int
  | WriteVelLimit nat float
  | WriteCurrentLim nat float
  | WriteControlMode nat control_mode
  | WriteTorqueConstant nat float
  | WriteTorqueModeVelLimitOff nat
  | WriteInputTorque nat float
  | SetVelocity nat float
  | GetPosition nat
  | Millis
  | DigitalRead
  | ReadVbus
  | ReadFault fault_source
  | RunState nat axis_state bool "float option"
  | SaveConfiguration
  | Reboot
  | Delay nat
  | GetEvent sensor
  | FilterUpdate float float float float float float float float float
  | PublishSensors "float list" "float list"
  | PublishErrors

subsection \<open>Cross product and centre-of-mass acceleration\<close>

text \<open>
  \<open>cross\<close> writes its result into a function-local static array and returns a pointer to
  it, so every call returns the same array, and a result passed back in as an argument is
  read while it is being overwritten. The arrays of \<open>comAcceleration\<close> are therefore kept
  in an explicit store, and the arguments of \<open>cross\<close> are the names of arrays.
\<close>

datatype buf = CrossProd | ImuToCOM | Omega | Ap | Alpha | Acc_COM

type_synonym mem = "buf \<Rightarrow> nat \<Rightarrow> float"

type_synonym vec3 = "float \<times> float \<times> float"

definition wr :: "buf \<Rightarrow> nat \<Rightarrow> float \<Rightarrow> mem \<Rightarrow> mem" where
  "wr b i v m = m(b := (m b)(i := v))"

definition wr3 :: "buf \<Rightarrow> vec3 \<Rightarrow> mem \<Rightarrow> mem" where
  "wr3 b v m = (case v of (x, y, z) \<Rightarrow> wr b 2 z (wr b 1 y (wr b 0 x m)))"

definition rd3 :: "buf \<Rightarrow> mem \<Rightarrow> vec3" where
  "rd3 b m = (m b 0, m b 1, m b 2)"

definition cross :: "buf \<Rightarrow> buf \<Rightarrow> mem \<Rightarrow> buf \<times> mem" where
  "cross x y m0 =
     (let m1 = wr CrossProd 0 (m0 x 1 * m0 y 2 - m0 x 2 * m0 y 1) m0;
          m2 = wr CrossProd 1 (m1 x 2 * m1 y 0 - m1 x 0 * m1 y 2) m1;
          m3 = wr CrossProd 2 (m2 x 0 * m2 y 1 - m2 x 1 * m2 y 0) m2
      in (CrossProd, m3))"

text \<open>
  The body of \<open>comAcceleration\<close> with the initialiser of its local \<open>imuToCOM\<close> as the
  argument \<open>r\<close>. The source's function is the instance below, with the zero vector.
\<close>

definition comAccelerationFrom :: "vec3 \<Rightarrow> vec3 \<Rightarrow> vec3 \<Rightarrow> float \<Rightarrow> mem \<Rightarrow> buf \<times> mem" where
  "comAccelerationFrom r accel gyro alpha_x m0 =
     (let m1 = wr3 ImuToCOM r m0;
          m2 = wr3 Omega gyro m1;
          m3 = wr3 Ap accel m2;
          m4 = wr3 Alpha (alpha_x, 0.0, 0.0) m3;
          (omegaCrossR, m5) = cross Omega ImuToCOM m4;
          (alphaCrossR, m6) = cross Alpha ImuToCOM m5;
          (omegaCrossOmegaCrossR, m7) = cross Omega omegaCrossR m6;
          m8 = fold (\<lambda>i m. wr Acc_COM i (m Ap i - m alphaCrossR i - m omegaCrossOmegaCrossR i) m)
                 [0, 1, 2] m7
      in (Acc_COM, m8))"

text \<open>Static arrays start as zeros.\<close>

definition statics0 :: mem where
  "statics0 = (\<lambda>b i. 0)"

definition imuToCOM :: vec3 where
  "imuToCOM = (0.0, 0.0, 0.0)"

definition comAcceleration :: "vec3 \<Rightarrow> vec3 \<Rightarrow> float \<Rightarrow> vec3" where
  "comAcceleration accel gyro alpha_x =
     (case comAccelerationFrom imuToCOM accel gyro alpha_x statics0 of
        (p, m) \<Rightarrow> rd3 p m)"

text \<open>The cross product and the difference of vectors, as mathematics has them.\<close>

definition cross3 :: "vec3 \<Rightarrow> vec3 \<Rightarrow> vec3" where
  "cross3 x y = (case x of (x0, x1, x2) \<Rightarrow> case y of (y0, y1, y2) \<Rightarrow>
     (x1 * y2 - x2 * y1, x2 * y0 - x0 * y2, x0 * y1 - x1 * y0))"

definition sub3 :: "vec3 \<Rightarrow> vec3 \<Rightarrow> vec3" where
  "sub3 x y = (case x of (x0, x1, x2) \<Rightarrow> case y of (y0, y1, y2) \<Rightarrow>
     (x0 - y0, x1 - y1, x2 - y2))"

subsection \<open>Reading the encoders\<close>

text \<open>
  \<open>readEncoder\<close> asks for both positions twice (its \<open>for\<close> loop runs for \<open>i = 0\<close> and
  \<open>i = 1\<close>); the replies are the arguments, one pair for each round. The result is the
  array \<open>spokeStates\<close>: positions at 0 and 1, velocities at 2 and 3. The array is static,
  and every call writes all four of its entries before it reads any, so what an earlier
  call left there does not matter and the model starts from zeros. The same holds for
  \<open>torsoStates\<close> in \<open>readIMU\<close>.
\<close>

definition encRound :: "globals \<Rightarrow> float \<times> float \<Rightarrow> float list \<Rightarrow> float list" where
  "encRound st p spokeStates =
     (spokeStates[0 := - 1.0 * fst p - enc0Offset st])[1 := snd p - enc1Offset st]"

definition readEncoder :: "float \<times> float \<Rightarrow> float \<times> float \<Rightarrow> globals \<Rightarrow> float list \<times> globals \<times> event list" where
  "readEncoder first second st =
     (let s1 = fold (encRound st) [first, second] [0, 0, 0, 0];
          s2 = s1[2 := (s1 ! 0 - oldSpoke1Angle st) / samplingTime];
          s3 = s2[3 := (s2 ! 1 - oldSpoke2Angle st) / samplingTime]
      in (s3,
          st\<lparr> oldSpoke1Angle := s3 ! 0, oldSpoke2Angle := s3 ! 1, oldSpokeSpeed := s3 ! 2 \<rparr>,
          [GetPosition 0, GetPosition 1, GetPosition 0, GetPosition 1]))"

subsection \<open>Reading the inertial sensors\<close>

text \<open>
  The three events as they are after \<open>cal.calibrate\<close>, and what the filter answers to
  \<open>getRoll\<close> and \<open>getYaw\<close> after the update with them. The filter is an external
  estimator: its answers are inputs.
\<close>

record imu_in =
  accel :: vec3
  gyro :: vec3
  mag :: vec3
  filterRoll :: float
  filterYaw :: float

definition readIMU :: "imu_in \<Rightarrow> globals \<Rightarrow> float list \<times> globals \<times> event list" where
  "readIMU i st =
     (case gyro i of (gyro_x, gyro_y, gyro_z) \<Rightarrow>
      case mag i of (mag_x, mag_y, mag_z) \<Rightarrow>
      let t1 = [0, gyro_x, 0];
          alpha_x = (t1 ! 1 - oldTorsoOmega st) / samplingTime;
          acc_COM = comAcceleration (accel i) (gyro i) alpha_x;
          gx = gyro_x * SENSORS_RADS_TO_DPS;
          gy = gyro_y * SENSORS_RADS_TO_DPS;
          gz = gyro_z * SENSORS_RADS_TO_DPS;
          t2 = t1[0 := filterRoll i * 1.0 / SENSORS_RADS_TO_DPS];
          t3 = t2[2 := filterYaw i * 1.0 / SENSORS_RADS_TO_DPS - yawOffset st]
      in (t3, st\<lparr> oldTorsoOmega := t3 ! 1 \<rparr>,
          [GetEvent Accelerometer, GetEvent Gyroscope, GetEvent Magnetometer,
           case acc_COM of (a0, a1, a2) \<Rightarrow> FilterUpdate gx gy gz a0 a1 a2 mag_x mag_y mag_z]))"

subsection \<open>The e-stop pin, the brake and the torque command\<close>

datatype pin_level = LOW | HIGH

text \<open>\<open>estop\<close> reads the pin; the level read is the argument.\<close>

definition estop :: "pin_level \<Rightarrow> bool" where
  "estop level = (if level = LOW then True else False)"

definition commandTorque :: "nat \<Rightarrow> float \<Rightarrow> event list" where
  "commandTorque axis torque = [WriteInputTorque axis torque]"

definition setControlMode :: "control_mode \<Rightarrow> event list" where
  "setControlMode m = map (\<lambda>axis. WriteControlMode axis m) [0, 1]"

definition brake :: "event list" where
  "brake = setControlMode CONTROL_MODE_VELOCITY_CONTROL @ [SetVelocity 0 0, SetVelocity 1 0]"

definition publishSensorStates :: "float list \<Rightarrow> float list \<Rightarrow> event list" where
  "publishSensorStates torsoStates spokeStates =
     (let encPos0 = spokeStates ! 0; encPos1 = spokeStates ! 1;
          encVel0 = spokeStates ! 2; encVel1 = spokeStates ! 3;
          torsoRoll = torsoStates ! 0; torsoOmega = torsoStates ! 1; yaw = torsoStates ! 2
      in [PublishSensors [torsoRoll, encPos0, encPos1, yaw] [torsoOmega, encVel0, encVel1]])"

subsection \<open>Calibration\<close>

text \<open>
  \<open>ODrive.run_state\<close> belongs to the motor-controller library: it requests a state and
  answers whether the request went through before its timeout. The answer the device
  would give to each request is the argument \<open>run_state\<close>; the timeout is \<open>None\<close> where
  the call leaves it to the library's default.
\<close>

definition calibrateMotor :: "bool \<Rightarrow> (axis_state \<Rightarrow> bool) \<Rightarrow> event list" where
  "calibrateMotor motornum run_state =
     [RunState (of_bool motornum) AXIS_STATE_MOTOR_CALIBRATION True None] @
     (if \<not> run_state AXIS_STATE_MOTOR_CALIBRATION then []
      else [RunState (of_bool motornum) AXIS_STATE_ENCODER_OFFSET_CALIBRATION True (Some 25.0)] @
        (if \<not> run_state AXIS_STATE_ENCODER_OFFSET_CALIBRATION then []
         else [RunState (of_bool motornum) AXIS_STATE_CLOSED_LOOP_CONTROL False None]))"

subsection \<open>Fault polling\<close>

record fault_in =
  odriveErr :: "64 word"
  motorErr0 :: "64 word"
  motorErr1 :: "64 word"
  axisErr0 :: "64 word"
  axisErr1 :: "64 word"
  encoderErr0 :: "64 word"
  encoderErr1 :: "64 word"
  controllerErr0 :: "64 word"
  controllerErr1 :: "64 word"

text \<open>
  The result is the return value, the array handed to \<open>errorStates.data\<close>, and the requests.
  The array is a local of \<open>readErrors\<close>, gone when \<open>loop\<close> publishes \<open>errorStates\<close>: the
  content of the published message is not part of the model, only that it is published.
\<close>

definition readErrors :: "fault_in \<Rightarrow> 64 word \<times> 64 word list \<times> event list" where
  "readErrors f =
     (let errors = [odriveErr f, motorErr0 f, motorErr1 f, axisErr0 f, axisErr1 f,
                    encoderErr0 f, encoderErr1 f, controllerErr0 f, controllerErr1 f];
          ret = fold (\<lambda>i ret. ret OR of_bool (errors ! i \<noteq> 0)) [0 ..< 9] 0
      in (ret, errors,
          [ReadFault ODriveErrors, ReadFault (MotorErrors 0), ReadFault (MotorErrors 1),
           ReadFault (AxisErrors 0), ReadFault (AxisErrors 1),
           ReadFault (EncoderErrors 0), ReadFault (EncoderErrors 1),
           ReadFault (ControllerErrors 0), ReadFault (ControllerErrors 1)]))"

subsection \<open>Messages of the command bus\<close>

text \<open>
  The arrays of a message are C pointers, indexed without a look at their length: a field
  is the function from index to the value read there.
\<close>

record jointstate =
  position :: "nat \<Rightarrow> float"
  velocity :: "nat \<Rightarrow> float"
  effort :: "nat \<Rightarrow> float"

record joy =
  axes :: "nat \<Rightarrow> float"
  buttons :: "nat \<Rightarrow> int"

text \<open>The branch compiled under \<open>TORQUE_CONTROL\<close>, which the file defines.\<close>

definition receiveJointState :: "jointstate \<Rightarrow> globals \<Rightarrow> globals" where
  "receiveJointState msg st =
     (let st1 = st\<lparr> torque0 := effort msg 0 \<rparr>
      in st1\<lparr> torque1 := torque0 st1 \<rparr>)"

definition receiveODriveCommand :: "joy \<Rightarrow> (axis_state \<Rightarrow> bool) \<Rightarrow> (axis_state \<Rightarrow> bool) \<Rightarrow> event list" where
  "receiveODriveCommand msg run_state0 run_state1 =
     (if buttons msg 0 = 1 then
        [SetVelocity 0 0, SetVelocity 1 0, SaveConfiguration, Delay 250]
        @ calibrateMotor False run_state0 @ calibrateMotor True run_state1
      else if buttons msg 3 = 1 then
        [SetVelocity 0 0, SetVelocity 1 0, Reboot, Delay 2000]
        @ calibrateMotor False run_state0 @ calibrateMotor True run_state1
      else [])"

text \<open>
  A message waiting on the bus; a command for the motor controller comes with the answers
  of the device to the calibration it may start.
\<close>

datatype message =
    MotorCommand jointstate
  | ODriveCommand joy "axis_state \<Rightarrow> bool" "axis_state \<Rightarrow> bool"

fun dispatch :: "message \<Rightarrow> globals \<Rightarrow> globals \<times> event list" where
  "dispatch (MotorCommand msg) st = (receiveJointState msg st, [])"
| "dispatch (ODriveCommand msg r0 r1) st = (st, receiveODriveCommand msg r0 r1)"

text \<open>\<open>nh.spinOnce\<close> calls the subscriber of each waiting message, in order.\<close>

fun spinOnce :: "message list \<Rightarrow> globals \<Rightarrow> globals \<times> event list" where
  "spinOnce [] st = (st, [])"
| "spinOnce (m # ms) st =
     (case dispatch m st of (st1, e1) \<Rightarrow>
      case spinOnce ms st1 of (st2, e2) \<Rightarrow> (st2, e1 @ e2))"

subsection \<open>The control decision\<close>

text \<open>What one round of sensor reading consumes: two rounds of encoder replies and the IMU.\<close>

record sensors_in =
  enc1 :: "float \<times> float"
  enc2 :: "float \<times> float"
  imu :: imu_in

text \<open>
  A call either returns or is still inside a loop when the recorded input ends.
\<close>

datatype status = Returned | Blocked

text \<open>
  The loop \<open>while (estop())\<close> of \<open>computeTorque\<close>. It runs for as long as the pin reads
  asserted, which may be forever; its input is the list of what is read at each test and
  in the body that follows it. When the list ends with the pin still asserted the call
  has not returned, and the result is what has happened so far.
\<close>

fun holdLoop :: "(pin_level \<times> sensors_in) list \<Rightarrow> globals \<Rightarrow> globals \<times> event list \<times> status" where
  "holdLoop [] st = (st, [], Blocked)"
| "holdLoop ((level, s) # rest) st =
     (if estop level then
        (case readEncoder (enc1 s) (enc2 s) st of (getSpokeStates, st1, e1) \<Rightarrow>
         case readIMU (imu s) st1 of (getTorsoStates, st2, e2) \<Rightarrow>
         case holdLoop rest st2 of (st3, e3, r) \<Rightarrow>
           (st3,
            [DigitalRead] @ setControlMode CONTROL_MODE_TORQUE_CONTROL
            @ commandTorque 0 0 @ commandTorque 1 0 @ e1 @ e2
            @ publishSensorStates getTorsoStates getSpokeStates @ e3,
            r))
      else (st, [DigitalRead], Returned))"

definition computeTorque ::
  "float list \<Rightarrow> float list \<Rightarrow> pin_level \<Rightarrow> (pin_level \<times> sensors_in) list \<Rightarrow> globals
    \<Rightarrow> globals \<times> event list \<times> status" where
  "computeTorque torsoStates spokeStates level held st =
     (if estop level then
        (let (st1, e1, r) = holdLoop held st
         in (case r of
               Blocked \<Rightarrow> (st1, [DigitalRead] @ brake @ e1, Blocked)
             | Returned \<Rightarrow>
                 (st1, [DigitalRead] @ brake @ e1 @ setControlMode CONTROL_MODE_TORQUE_CONTROL,
                  Returned)))
      else if oldTorsoOmega st \<ge> 1.0 * M_PI then
        (st, [DigitalRead] @ brake @ setControlMode CONTROL_MODE_TORQUE_CONTROL, Returned)
      else
        (st, [DigitalRead] @ commandTorque 0 (- torque0 st) @ commandTorque 1 (1.0 * torque1 st),
         Returned))"

subsection \<open>One call of \<open>loop\<close>\<close>

record tick_in =
  millis1 :: "32 word"
  millis2 :: "32 word"
  sens :: sensors_in
  faults :: fault_in
  pin :: pin_level
  held :: "(pin_level \<times> sensors_in) list"
  inbox :: "message list"

definition loop :: "tick_in \<Rightarrow> globals \<Rightarrow> globals \<times> event list \<times> status" where
  "loop i st =
     (if real (unat (millis1 i - timestamp st)) < 1000 * samplingTime then (st, [Millis], Returned)
      else
        let st1 = st\<lparr> timestamp := millis2 i \<rparr>;
            (torsoStates, st2, e2) = readIMU (imu (sens i)) st1;
            (getSpokeStates, st3, e3) = readEncoder (enc1 (sens i)) (enc2 (sens i)) st2;
            (ret, errors, e4) = readErrors (faults i);
            e5 = (if ret \<noteq> 0 then [PublishErrors] else []);
            e6 = publishSensorStates torsoStates getSpokeStates;
            (st4, e7, r) = computeTorque torsoStates getSpokeStates (pin i) (held i) st3;
            e = [Millis, Millis] @ e2 @ e3 @ e4 @ e5 @ e6 @ e7
        in (case r of
              Blocked \<Rightarrow> (st4, e, Blocked)
            | Returned \<Rightarrow> (case spinOnce (inbox i) st4 of (st5, e8) \<Rightarrow> (st5, e @ e8, Returned))))"

text \<open>Calls of \<open>loop\<close> one after the other, for as long as they return.\<close>

fun run :: "tick_in list \<Rightarrow> globals \<Rightarrow> globals \<times> event list \<times> status" where
  "run [] st = (st, [], Returned)"
| "run (i # rest) st =
     (let (st1, e1, r1) = loop i st
      in (case r1 of
            Blocked \<Rightarrow> (st1, e1, Blocked)
          | Returned \<Rightarrow> (case run rest st1 of (st2, e2, r2) \<Rightarrow> (st2, e1 @ e2, r2))))"

subsection \<open>Startup\<close>

text \<open>
  \<open>setup\<close> waits for the USB connection and stops for good when the sensors are not
  found; whether the connection comes up and whether the sensors are found are inputs.
  The branch compiled under \<open>ODRIVE_CONNECTED\<close> and \<open>TORQUE_CONTROL\<close> is modelled, as the
  file defines both.
\<close>

definition MOTOR_VELOCITY_LIMIT :: float where
  "MOTOR_VELOCITY_LIMIT = 50.0"

definition MOTOR_CURRENT_LIMIT :: float where
  "MOTOR_CURRENT_LIMIT = 20.0"

record setup_in =
  usbUp :: bool
  sensorsFound :: bool
  run_state0 :: "axis_state \<Rightarrow> bool"
  run_state1 :: "axis_state \<Rightarrow> bool"
  sens0 :: sensors_in
  millis0 :: "32 word"

text \<open>The function \<open>setup\<close> of the source; the name is a keyword of Isabelle.\<close>

definition setup0 :: "setup_in \<Rightarrow> globals \<Rightarrow> globals \<times> event list \<times> status" where
  "setup0 i st =
     (if \<not> usbUp i then (st, [], Blocked)
      else if \<not> sensorsFound i then (st, [Delay 10], Blocked)
      else
        let e1 = [ReadVbus] @ concat (map (\<lambda>axis.
                   [WriteAxisError axis 0, WriteVelLimit axis MOTOR_VELOCITY_LIMIT,
                    WriteCurrentLim axis MOTOR_CURRENT_LIMIT]) [0, 1]);
            e2 = calibrateMotor False (run_state0 i) @ calibrateMotor True (run_state1 i) in
        case readEncoder (enc1 (sens0 i)) (enc2 (sens0 i)) st of (spokeStates, st1, e3) \<Rightarrow>
        case readIMU (imu (sens0 i)) st1 of (torsoStates, st2, e4) \<Rightarrow>
        let st3 = st2\<lparr> enc0Offset := spokeStates ! 0 \<rparr>;
            st4 = st3\<lparr> enc1Offset := spokeStates ! 1 \<rparr>;
            st5 = st4\<lparr> yawOffset := torsoStates ! 2 \<rparr>;
            e5 = concat (map (\<lambda>axis.
                   [WriteControlMode axis CONTROL_MODE_TORQUE_CONTROL,
                    WriteTorqueConstant axis (8.23 / 150.0),
                    WriteTorqueModeVelLimitOff axis]) [0, 1]);
            st6 = st5\<lparr> timestamp := millis0 i \<rparr>
        in (st6, e1 @ e2 @ e3 @ e4 @ [Delay 250] @ e5 @ [Millis], Returned))"

text \<open>The program: \<open>setup\<close> from the initial values, then the calls of \<open>loop\<close>.\<close>

definition program :: "setup_in \<Rightarrow> tick_in list \<Rightarrow> globals \<times> event list \<times> status" where
  "program su ticks =
     (let (st, e, r) = setup0 su initial
      in (case r of
            Blocked \<Rightarrow> (st, e, Blocked)
          | Returned \<Rightarrow> (case run ticks st of (st1, e1, r1) \<Rightarrow> (st1, e @ e1, r1))))"

subsection \<open>Observations on outputs\<close>

text \<open>The commands that move a motor: a torque or a velocity set point.\<close>

fun isActuation :: "event \<Rightarrow> bool" where
  "isActuation (WriteInputTorque a v) = True"
| "isActuation (SetVelocity a v) = True"
| "isActuation e = False"

text \<open>The lines that command a motor: a control mode, a torque or a velocity set point.\<close>

fun isCommand :: "event \<Rightarrow> bool" where
  "isCommand (WriteControlMode a m) = True"
| "isCommand (WriteInputTorque a v) = True"
| "isCommand (SetVelocity a v) = True"
| "isCommand e = False"

fun isPublishSensors :: "event \<Rightarrow> bool" where
  "isPublishSensors (PublishSensors p v) = True"
| "isPublishSensors e = False"

text \<open>The axis state a line asks for.\<close>

fun requested :: "event \<Rightarrow> axis_state list" where
  "requested (RunState a s w t) = [s]"
| "requested e = []"

text \<open>The specification's \<open>anyFault\<close>: at least one of the nine polled values is not zero.\<close>

definition anyFault :: "fault_in \<Rightarrow> bool" where
  "anyFault f =
     (odriveErr f \<noteq> 0 \<or> motorErr0 f \<noteq> 0 \<or> motorErr1 f \<noteq> 0 \<or> axisErr0 f \<noteq> 0
      \<or> axisErr1 f \<noteq> 0 \<or> encoderErr0 f \<noteq> 0 \<or> encoderErr1 f \<noteq> 0
      \<or> controllerErr0 f \<noteq> 0 \<or> controllerErr1 f \<noteq> 0)"

text \<open>Two states agree on the offsets, the stored torques and the reference timestamp.\<close>

definition sameSettings :: "globals \<Rightarrow> globals \<Rightarrow> bool" where
  "sameSettings st st' =
     (enc0Offset st' = enc0Offset st \<and> enc1Offset st' = enc1Offset st \<and> yawOffset st' = yawOffset st
      \<and> torque0 st' = torque0 st \<and> torque1 st' = torque1 st \<and> timestamp st' = timestamp st)"

text \<open>
  Names for the parts of a call of \<open>loop\<close> that passes the gate: the state when the
  sensors have been read, the outputs up to there, and the call of \<open>computeTorque\<close>.
\<close>

definition sensed :: "tick_in \<Rightarrow> globals \<Rightarrow> globals" where
  "sensed i st =
     fst (snd (readEncoder (enc1 (sens i)) (enc2 (sens i))
       (fst (snd (readIMU (imu (sens i)) (st\<lparr> timestamp := millis2 i \<rparr>))))))"

definition sensedEvents :: "tick_in \<Rightarrow> globals \<Rightarrow> event list" where
  "sensedEvents i st =
     (let r2 = readIMU (imu (sens i)) (st\<lparr> timestamp := millis2 i \<rparr>);
          r3 = readEncoder (enc1 (sens i)) (enc2 (sens i)) (fst (snd r2));
          r4 = readErrors (faults i)
      in [Millis, Millis] @ snd (snd r2) @ snd (snd r3) @ snd (snd r4)
         @ (if fst r4 \<noteq> 0 then [PublishErrors] else [])
         @ publishSensorStates (fst r2) (fst r3))"

definition decision :: "tick_in \<Rightarrow> globals \<Rightarrow> globals \<times> event list \<times> status" where
  "decision i st =
     (let r2 = readIMU (imu (sens i)) (st\<lparr> timestamp := millis2 i \<rparr>);
          r3 = readEncoder (enc1 (sens i)) (enc2 (sens i)) (fst (snd r2))
      in computeTorque (fst r2) (fst r3) (pin i) (held i) (fst (snd r3)))"

subsection \<open>Example inputs\<close>

text \<open>
  A robot at rest but for the angular rate \<open>w\<close> about x, with the encoders at \<open>p0\<close> and
  \<open>p1\<close>, a motor controller without faults that completes every calibration step, and a
  torque command with \<open>effort[0] = v\<close>.
\<close>

definition imuAt :: "float \<Rightarrow> imu_in" where
  "imuAt w = \<lparr> accel = (0, 0, 9.81), gyro = (w, 0, 0), mag = (1, 0, 0),
     filterRoll = 0, filterYaw = 0 \<rparr>"

definition sensorsAt :: "float \<Rightarrow> float \<Rightarrow> float \<Rightarrow> sensors_in" where
  "sensorsAt p0 p1 w = \<lparr> enc1 = (p0, p1), enc2 = (p0, p1), imu = imuAt w \<rparr>"

definition noFaults :: fault_in where
  "noFaults = \<lparr> odriveErr = 0, motorErr0 = 0, motorErr1 = 0, axisErr0 = 0, axisErr1 = 0,
     encoderErr0 = 0, encoderErr1 = 0, controllerErr0 = 0, controllerErr1 = 0 \<rparr>"

definition startupAt :: "float \<Rightarrow> float \<Rightarrow> setup_in" where
  "startupAt p0 p1 = \<lparr> usbUp = True, sensorsFound = True, run_state0 = (\<lambda>s. True),
     run_state1 = (\<lambda>s. True), sens0 = sensorsAt p0 p1 0, millis0 = 1000 \<rparr>"

definition torqueMsg :: "float \<Rightarrow> message" where
  "torqueMsg v = MotorCommand \<lparr> position = (\<lambda>n. 0), velocity = (\<lambda>n. 0),
     effort = (\<lambda>n. if n = 0 then v else 0) \<rparr>"

definition tickOf ::
  "32 word \<Rightarrow> float \<Rightarrow> float \<Rightarrow> float \<Rightarrow> pin_level \<Rightarrow> (pin_level \<times> sensors_in) list
    \<Rightarrow> message list \<Rightarrow> tick_in" where
  "tickOf t p0 p1 w level hs ms = \<lparr> millis1 = t, millis2 = t, sens = sensorsAt p0 p1 w,
     faults = noFaults, pin = level, held = hs, inbox = ms \<rparr>"

text \<open>
  The state after startup at rest, and the state after a call of \<open>loop\<close> ten milliseconds
  later that received a torque command of one half.
\<close>

definition started :: globals where
  "started = \<lparr> oldTorsoOmega = 0, oldSpoke1Angle = 0, oldSpoke2Angle = 0,
      oldSpokeSpeed = - alpha / samplingTime, torque0 = 0, torque1 = 0, enc0Offset = 0,
      enc1Offset = 0, yawOffset = 0, timestamp = 1000, impactOccurredBefore = False \<rparr>"

definition commanded :: globals where
  "commanded = \<lparr> oldTorsoOmega = 0, oldSpoke1Angle = 0, oldSpoke2Angle = 0,
      oldSpokeSpeed = 0, torque0 = 1/2, torque1 = 1/2, enc0Offset = 0,
      enc1Offset = 0, yawOffset = 0, timestamp = 1010, impactOccurredBefore = False \<rparr>"

section \<open>Properties\<close>

subsection \<open>What each function computes\<close>

lemmas example_defs = tickOf_def torqueMsg_def sensorsAt_def imuAt_def noFaults_def startupAt_def

lemmas period_defs = samplingTime_def FILTER_UPDATE_RATE_HZ_def

lemma comAcceleration_zero_arm: "comAcceleration a w ax = a"
  by (cases a; cases w)
     (simp add: comAcceleration_def comAccelerationFrom_def imuToCOM_def cross_def wr_def
        wr3_def rd3_def statics0_def Let_def)

lemma readEncoder_result:
  "readEncoder a b st =
     ([- fst b - enc0Offset st, snd b - enc1Offset st,
       (- fst b - enc0Offset st - oldSpoke1Angle st) / samplingTime,
       (snd b - enc1Offset st - oldSpoke2Angle st) / samplingTime],
      st\<lparr> oldSpoke1Angle := - fst b - enc0Offset st,
          oldSpoke2Angle := snd b - enc1Offset st,
          oldSpokeSpeed := (- fst b - enc0Offset st - oldSpoke1Angle st) / samplingTime \<rparr>,
      [GetPosition 0, GetPosition 1, GetPosition 0, GetPosition 1])"
  by (simp add: readEncoder_def encRound_def Let_def)

lemma readIMU_result:
  "readIMU i st =
     ([filterRoll i * 1.0 / SENSORS_RADS_TO_DPS, fst (gyro i),
       filterYaw i * 1.0 / SENSORS_RADS_TO_DPS - yawOffset st],
      st\<lparr> oldTorsoOmega := fst (gyro i) \<rparr>,
      [GetEvent Accelerometer, GetEvent Gyroscope, GetEvent Magnetometer,
       FilterUpdate (fst (gyro i) * SENSORS_RADS_TO_DPS) (fst (snd (gyro i)) * SENSORS_RADS_TO_DPS)
         (snd (snd (gyro i)) * SENSORS_RADS_TO_DPS)
         (fst (accel i)) (fst (snd (accel i))) (snd (snd (accel i)))
         (fst (mag i)) (fst (snd (mag i))) (snd (snd (mag i)))])"
  by (cases "gyro i"; cases "mag i"; cases "accel i")
     (simp add: readIMU_def Let_def comAcceleration_zero_arm)

lemma upt_0_9: "[0 ..< 9] = [0, 1, 2, 3, 4, 5, 6, 7, 8]"
  by (simp add: upt_rec)

lemma or_of_bool_word: "(of_bool a :: 64 word) OR of_bool b = of_bool (a \<or> b)"
  by (cases a; cases b) simp_all

lemma readErrors_result:
  "readErrors f =
     (of_bool (anyFault f),
      [odriveErr f, motorErr0 f, motorErr1 f, axisErr0 f, axisErr1 f,
       encoderErr0 f, encoderErr1 f, controllerErr0 f, controllerErr1 f],
      [ReadFault ODriveErrors, ReadFault (MotorErrors 0), ReadFault (MotorErrors 1),
       ReadFault (AxisErrors 0), ReadFault (AxisErrors 1),
       ReadFault (EncoderErrors 0), ReadFault (EncoderErrors 1),
       ReadFault (ControllerErrors 0), ReadFault (ControllerErrors 1)])"
proof -
  have "fold (\<lambda>i ret. ret OR of_bool ([e0, e1, e2, e3, e4, e5, e6, e7, e8] ! i \<noteq> 0))
          [0, 1, 2, 3, 4, 5, 6, 7, 8] (0 :: 64 word)
        = of_bool (e0 \<noteq> 0 \<or> e1 \<noteq> 0 \<or> e2 \<noteq> 0 \<or> e3 \<noteq> 0 \<or> e4 \<noteq> 0 \<or> e5 \<noteq> 0
            \<or> e6 \<noteq> 0 \<or> e7 \<noteq> 0 \<or> e8 \<noteq> 0)"
    for e0 e1 e2 e3 e4 e5 e6 e7 e8 :: "64 word"
  proof -
    have z: "(0 :: 64 word) = of_bool False" by simp
    show ?thesis
      unfolding z by (simp add: or_of_bool_word disj_ac del: of_bool_eq_0_iff)
  qed
  then show ?thesis
    by (simp add: readErrors_def Let_def upt_0_9 anyFault_def)
qed

subsection \<open>What the sub-loop and the control decision leave alone\<close>

lemma holdLoop_settings: "sameSettings st (fst (holdLoop hs st))"
  by (induction hs arbitrary: st)
     (auto simp: sameSettings_def readEncoder_result readIMU_result split_def)

lemma computeTorque_settings: "sameSettings st (fst (computeTorque ts ss level hs st))"
  using holdLoop_settings [of st hs]
  by (auto simp: computeTorque_def sameSettings_def split_def Let_def split: status.splits)

lemma holdLoop_no_clock_no_faults:
  "Millis \<notin> set (fst (snd (holdLoop hs st)))
   \<and> PublishErrors \<notin> set (fst (snd (holdLoop hs st)))"
proof (induction hs arbitrary: st)
  case Nil
  show ?case by simp
next
  case (Cons h hs)
  obtain level s where h: "h = (level, s)" by (cases h)
  show ?case
    by (simp add: h Cons readEncoder_result readIMU_result split_def setControlMode_def
        commandTorque_def publishSensorStates_def)
qed

lemma computeTorque_no_clock_no_faults:
  "Millis \<notin> set (fst (snd (computeTorque ts ss level hs st)))
   \<and> PublishErrors \<notin> set (fst (snd (computeTorque ts ss level hs st)))"
  using holdLoop_no_clock_no_faults [of hs st]
  by (auto simp: computeTorque_def split_def Let_def setControlMode_def brake_def
      commandTorque_def split: status.splits)

lemma calibrateMotor_no_clock_no_faults:
  "Millis \<notin> set (calibrateMotor m r) \<and> PublishErrors \<notin> set (calibrateMotor m r)"
  by (simp add: calibrateMotor_def)

lemma spinOnce_no_clock_no_faults:
  "Millis \<notin> set (snd (spinOnce ms st)) \<and> PublishErrors \<notin> set (snd (spinOnce ms st))"
proof (induction ms arbitrary: st)
  case Nil
  show ?case by simp
next
  case (Cons m ms)
  show ?case
    using calibrateMotor_no_clock_no_faults
    by (cases m) (simp_all add: Cons split_def receiveODriveCommand_def)
qed

lemma spinOnce_offsets:
  "enc0Offset (fst (spinOnce ms st)) = enc0Offset st \<and> enc1Offset (fst (spinOnce ms st)) = enc1Offset st
   \<and> yawOffset (fst (spinOnce ms st)) = yawOffset st \<and> timestamp (fst (spinOnce ms st)) = timestamp st"
proof (induction ms arbitrary: st)
  case Nil
  show ?case by simp
next
  case (Cons m ms)
  show ?case
    by (cases m) (simp_all add: Cons receiveJointState_def split_def)
qed

lemma spinOnce_slots:
  "oldSpoke1Angle (fst (spinOnce ms st)) = oldSpoke1Angle st
   \<and> oldSpoke2Angle (fst (spinOnce ms st)) = oldSpoke2Angle st"
proof (induction ms arbitrary: st)
  case Nil
  show ?case by simp
next
  case (Cons m ms)
  show ?case
    by (cases m) (simp_all add: Cons receiveJointState_def split_def)
qed

lemma spinOnce_torques:
  "torque0 st = torque1 st \<Longrightarrow> torque0 (fst (spinOnce ms st)) = torque1 (fst (spinOnce ms st))"
proof (induction ms arbitrary: st)
  case Nil
  then show ?case by simp
next
  case (Cons m ms)
  show ?case
  proof (cases m)
    case (MotorCommand msg)
    have "torque0 (receiveJointState msg st) = torque1 (receiveJointState msg st)"
      by (simp add: receiveJointState_def)
    from Cons.IH [OF this] show ?thesis
      by (simp add: MotorCommand split_def)
  next
    case (ODriveCommand j r0 r1)
    from Cons.IH [OF Cons.prems] show ?thesis
      by (simp add: ODriveCommand split_def)
  qed
qed

subsection \<open>The sub-loop while the interlock is asserted\<close>

lemma holdLoop_released:
  assumes "\<forall>h\<in>set hs. estop (fst h)" and "\<not> estop (fst r)"
  shows "snd (snd (holdLoop (hs @ r # rest) st)) = Returned
     \<and> filter isActuation (fst (snd (holdLoop (hs @ r # rest) st)))
         = concat (replicate (length hs) [WriteInputTorque 0 0, WriteInputTorque 1 0])
     \<and> count_list (fst (snd (holdLoop (hs @ r # rest) st))) DigitalRead = length hs + 1
     \<and> length (filter isPublishSensors (fst (snd (holdLoop (hs @ r # rest) st)))) = length hs
     \<and> count_list (fst (snd (holdLoop (hs @ r # rest) st))) (GetEvent Gyroscope) = length hs
     \<and> count_list (fst (snd (holdLoop (hs @ r # rest) st))) (GetPosition 0) = 2 * length hs"
  using assms
proof (induction hs arbitrary: st)
  case Nil
  then show ?case by (cases r) simp
next
  case (Cons h hs)
  obtain level s where h: "h = (level, s)" by (cases h)
  from Cons.prems have a: "estop level" and b: "\<forall>h\<in>set hs. estop (fst h)"
    by (simp_all add: h)
  note ih = Cons.IH [OF b Cons.prems(2)]
  show ?case
    by (simp add: h a ih readEncoder_result readIMU_result split_def setControlMode_def
        commandTorque_def publishSensorStates_def)
qed

lemma holdLoop_blocked:
  "\<forall>h\<in>set hs. estop (fst h) \<Longrightarrow> snd (snd (holdLoop hs st)) = Blocked"
proof (induction hs arbitrary: st)
  case Nil
  show ?case by simp
next
  case (Cons h hs)
  obtain level s where h: "h = (level, s)" by (cases h)
  from Cons.prems have a: "estop level" and b: "\<forall>h\<in>set hs. estop (fst h)"
    by (simp_all add: h)
  show ?case
    by (simp add: h a Cons.IH [OF b] split_def)
qed

lemma computeTorque_hold:
  assumes "estop level" and "\<forall>h\<in>set hs. estop (fst h)" and "\<not> estop (fst r)"
  shows "snd (snd (computeTorque ts ss level (hs @ r # rest) st)) = Returned
     \<and> filter isActuation (fst (snd (computeTorque ts ss level (hs @ r # rest) st)))
         = [SetVelocity 0 0, SetVelocity 1 0]
           @ concat (replicate (length hs) [WriteInputTorque 0 0, WriteInputTorque 1 0])
     \<and> count_list (fst (snd (computeTorque ts ss level (hs @ r # rest) st))) DigitalRead
         = length hs + 2
     \<and> length (filter isPublishSensors (fst (snd (computeTorque ts ss level (hs @ r # rest) st))))
         = length hs
     \<and> count_list (fst (snd (computeTorque ts ss level (hs @ r # rest) st))) (GetEvent Gyroscope)
         = length hs
     \<and> count_list (fst (snd (computeTorque ts ss level (hs @ r # rest) st))) (GetPosition 0)
         = 2 * length hs
     \<and> torque0 (fst (computeTorque ts ss level (hs @ r # rest) st)) = torque0 st
     \<and> torque1 (fst (computeTorque ts ss level (hs @ r # rest) st)) = torque1 st"
proof -
  note h = holdLoop_released [OF assms(2,3), of rest st]
  have s: "torque0 (fst (computeTorque ts ss level (hs @ r # rest) st)) = torque0 st
     \<and> torque1 (fst (computeTorque ts ss level (hs @ r # rest) st)) = torque1 st"
    using computeTorque_settings [of st ts ss level "hs @ r # rest"]
    by (simp add: sameSettings_def)
  show ?thesis
    using assms(1) h s
    by (simp add: computeTorque_def split_def Let_def brake_def setControlMode_def)
qed

lemma holdLoop_commands:
  assumes "\<forall>h\<in>set hs. estop (fst h)" and "\<not> estop (fst r)"
  shows "filter isCommand (fst (snd (holdLoop (hs @ r # rest) st)))
         = concat (replicate (length hs)
             [WriteControlMode 0 CONTROL_MODE_TORQUE_CONTROL,
              WriteControlMode 1 CONTROL_MODE_TORQUE_CONTROL,
              WriteInputTorque 0 0, WriteInputTorque 1 0])"
  using assms
proof (induction hs arbitrary: st)
  case Nil
  then show ?case by (cases r) simp
next
  case (Cons h hs)
  obtain level s where h: "h = (level, s)" by (cases h)
  from Cons.prems have a: "estop level" and b: "\<forall>h\<in>set hs. estop (fst h)"
    by (simp_all add: h)
  note ih = Cons.IH [OF b Cons.prems(2)]
  show ?case
    by (simp add: h a ih readEncoder_result readIMU_result split_def setControlMode_def
        commandTorque_def publishSensorStates_def)
qed

lemma computeTorque_commands:
  assumes "estop level" and "\<forall>h\<in>set hs. estop (fst h)" and "\<not> estop (fst r)"
  shows "filter isCommand (fst (snd (computeTorque ts ss level (hs @ r # rest) st)))
         = [WriteControlMode 0 CONTROL_MODE_VELOCITY_CONTROL,
            WriteControlMode 1 CONTROL_MODE_VELOCITY_CONTROL,
            SetVelocity 0 0, SetVelocity 1 0]
           @ concat (replicate (length hs)
               [WriteControlMode 0 CONTROL_MODE_TORQUE_CONTROL,
                WriteControlMode 1 CONTROL_MODE_TORQUE_CONTROL,
                WriteInputTorque 0 0, WriteInputTorque 1 0])
           @ [WriteControlMode 0 CONTROL_MODE_TORQUE_CONTROL,
              WriteControlMode 1 CONTROL_MODE_TORQUE_CONTROL]"
proof -
  have r: "snd (snd (holdLoop (hs @ r # rest) st)) = Returned"
    using holdLoop_released [OF assms(2,3), of rest st] by simp
  show ?thesis
    using assms(1) r holdLoop_commands [OF assms(2,3), of rest st]
    by (simp add: computeTorque_def split_def Let_def brake_def setControlMode_def)
qed

lemma computeTorque_blocked:
  assumes "estop level" and "\<forall>h\<in>set hs. estop (fst h)"
  shows "snd (snd (computeTorque ts ss level hs st)) = Blocked"
  using assms(1) holdLoop_blocked [OF assms(2), of st]
  by (simp add: computeTorque_def split_def Let_def)

subsection \<open>A call of \<open>loop\<close>, in its parts\<close>

lemma decision_eq: "decision i st = computeTorque ts ss (pin i) (held i) (sensed i st)"
  by (simp add: decision_def sensed_def computeTorque_def Let_def)

lemma loop_waiting:
  assumes "real (unat (millis1 i - timestamp st)) < 1000 * samplingTime"
  shows "loop i st = (st, [Millis], Returned)"
  using assms by (simp add: loop_def)

lemma loop_elapsed:
  assumes "\<not> real (unat (millis1 i - timestamp st)) < 1000 * samplingTime"
  shows "loop i st =
     (case snd (snd (decision i st)) of
        Blocked \<Rightarrow> (fst (decision i st), sensedEvents i st @ fst (snd (decision i st)), Blocked)
      | Returned \<Rightarrow>
          (fst (spinOnce (inbox i) (fst (decision i st))),
           sensedEvents i st @ fst (snd (decision i st))
             @ snd (spinOnce (inbox i) (fst (decision i st))),
           Returned))"
  using assms
  by (simp add: loop_def decision_def sensedEvents_def Let_def split_def split: status.splits)

lemma sensed_result:
  "sensed i st = st\<lparr> timestamp := millis2 i, oldTorsoOmega := fst (gyro (imu (sens i))),
      oldSpoke1Angle := - fst (enc2 (sens i)) - enc0Offset st,
      oldSpoke2Angle := snd (enc2 (sens i)) - enc1Offset st,
      oldSpokeSpeed := (- fst (enc2 (sens i)) - enc0Offset st - oldSpoke1Angle st) / samplingTime \<rparr>"
  by (simp add: sensed_def readIMU_result readEncoder_result)

lemma sensedEvents_result:
  "sensedEvents i st =
     [Millis, Millis] @ snd (snd (readIMU (imu (sens i)) st))
     @ [GetPosition 0, GetPosition 1, GetPosition 0, GetPosition 1]
     @ snd (snd (readErrors (faults i)))
     @ (if anyFault (faults i) then [PublishErrors] else [])
     @ [PublishSensors
          [filterRoll (imu (sens i)) * 1.0 / SENSORS_RADS_TO_DPS,
           - fst (enc2 (sens i)) - enc0Offset st, snd (enc2 (sens i)) - enc1Offset st,
           filterYaw (imu (sens i)) * 1.0 / SENSORS_RADS_TO_DPS - yawOffset st]
          [fst (gyro (imu (sens i))),
           (- fst (enc2 (sens i)) - enc0Offset st - oldSpoke1Angle st) / samplingTime,
           (snd (enc2 (sens i)) - enc1Offset st - oldSpoke2Angle st) / samplingTime]]"
  by (simp add: sensedEvents_def readIMU_result readEncoder_result readErrors_result
      publishSensorStates_def Let_def)

lemma decision_settings: "sameSettings (sensed i st) (fst (decision i st))"
  by (simp add: decision_eq [of i st "[]" "[]"] computeTorque_settings)

lemma loop_offsets:
  "enc0Offset (fst (loop i st)) = enc0Offset st \<and> enc1Offset (fst (loop i st)) = enc1Offset st
   \<and> yawOffset (fst (loop i st)) = yawOffset st"
proof (cases "real (unat (millis1 i - timestamp st)) < 1000 * samplingTime")
  case True
  then show ?thesis by (simp add: loop_waiting)
next
  case False
  have "enc0Offset (fst (decision i st)) = enc0Offset st
      \<and> enc1Offset (fst (decision i st)) = enc1Offset st
      \<and> yawOffset (fst (decision i st)) = yawOffset st"
    using decision_settings [of i st] by (simp add: sameSettings_def sensed_result)
  then show ?thesis
    using False by (simp add: loop_elapsed spinOnce_offsets split: status.splits)
qed

lemma loop_torques:
  assumes "torque0 st = torque1 st"
  shows "torque0 (fst (loop i st)) = torque1 (fst (loop i st))"
proof (cases "real (unat (millis1 i - timestamp st)) < 1000 * samplingTime")
  case True
  then show ?thesis using assms by (simp add: loop_waiting)
next
  case False
  have d: "torque0 (fst (decision i st)) = torque1 (fst (decision i st))"
    using decision_settings [of i st] assms by (simp add: sameSettings_def sensed_result)
  show ?thesis
    using False d spinOnce_torques [OF d]
    by (simp add: loop_elapsed split: status.splits)
qed

lemma loop_timestamp:
  "timestamp (fst (loop i st))
     = (if real (unat (millis1 i - timestamp st)) < 1000 * samplingTime then timestamp st
        else millis2 i)"
proof (cases "real (unat (millis1 i - timestamp st)) < 1000 * samplingTime")
  case True
  then show ?thesis by (simp add: loop_waiting)
next
  case False
  have "timestamp (fst (decision i st)) = millis2 i"
    using decision_settings [of i st] by (simp add: sameSettings_def sensed_result)
  then show ?thesis
    using False by (simp add: loop_elapsed spinOnce_offsets split: status.splits)
qed

lemma loop_fault_publish:
  "count_list (fst (snd (loop i st))) PublishErrors
       = (if \<not> real (unat (millis1 i - timestamp st)) < 1000 * samplingTime \<and> anyFault (faults i)
          then 1 else 0)"
proof (cases "real (unat (millis1 i - timestamp st)) < 1000 * samplingTime")
  case True
  then show ?thesis by (simp add: loop_waiting)
next
  case False
  have d: "count_list (fst (snd (decision i st))) PublishErrors = 0"
    by (simp add: decision_eq [of i st "[]" "[]"] computeTorque_no_clock_no_faults)
  have p: "count_list (snd (spinOnce (inbox i) s)) PublishErrors = 0" for s
    by (simp add: spinOnce_no_clock_no_faults)
  have s: "count_list (sensedEvents i st) PublishErrors = (if anyFault (faults i) then 1 else 0)"
    by (simp add: sensedEvents_result readIMU_result readErrors_result)
  show ?thesis
    using False
    by (simp add: loop_elapsed d s p split: status.splits)
qed

lemma loop_normal:
  assumes "\<not> real (unat (millis1 i - timestamp s)) < 1000 * samplingTime"
    and "\<not> estop (pin i)" and "fst (gyro (imu (sens i))) < M_PI"
  shows "take 2 (filter isActuation (fst (snd (loop i s))))
           = [WriteInputTorque 0 (- torque0 s), WriteInputTorque 1 (torque1 s)]
         \<and> snd (snd (loop i s)) = Returned"
proof -
  have d: "decision i s = (sensed i s,
      [DigitalRead, WriteInputTorque 0 (- torque0 s), WriteInputTorque 1 (torque1 s)], Returned)"
    using assms(2,3)
    by (simp add: decision_eq [of i s "[]" "[]"] computeTorque_def commandTorque_def sensed_result)
  have e: "filter isActuation (sensedEvents i s) = []"
    by (simp add: sensedEvents_result readIMU_result readErrors_result)
  show ?thesis
    using assms(1) by (simp add: loop_elapsed d e)
qed

lemma loop_normal_commands:
  assumes "\<not> real (unat (millis1 i - timestamp s)) < 1000 * samplingTime"
    and "\<not> estop (pin i)" and "fst (gyro (imu (sens i))) < M_PI"
  shows "take 2 (filter isCommand (fst (snd (loop i s))))
           = [WriteInputTorque 0 (- torque0 s), WriteInputTorque 1 (torque1 s)]"
proof -
  have d: "decision i s = (sensed i s,
      [DigitalRead, WriteInputTorque 0 (- torque0 s), WriteInputTorque 1 (torque1 s)], Returned)"
    using assms(2,3)
    by (simp add: decision_eq [of i s "[]" "[]"] computeTorque_def commandTorque_def sensed_result)
  have e: "filter isCommand (sensedEvents i s) = []"
    by (simp add: sensedEvents_result readIMU_result readErrors_result)
  show ?thesis
    using assms(1) by (simp add: loop_elapsed d e)
qed

subsection \<open>Startup and runs\<close>

lemma setup0_state:
  "fst (setup0 su st) =
     (if \<not> usbUp su \<or> \<not> sensorsFound su then st
      else
        st\<lparr> oldSpoke1Angle := - fst (enc2 (sens0 su)) - enc0Offset st,
             oldSpoke2Angle := snd (enc2 (sens0 su)) - enc1Offset st,
             oldSpokeSpeed := (- fst (enc2 (sens0 su)) - enc0Offset st - oldSpoke1Angle st) / samplingTime,
             oldTorsoOmega := fst (gyro (imu (sens0 su))),
             enc0Offset := - fst (enc2 (sens0 su)) - enc0Offset st,
             enc1Offset := snd (enc2 (sens0 su)) - enc1Offset st,
             yawOffset := filterYaw (imu (sens0 su)) * 1.0 / SENSORS_RADS_TO_DPS - yawOffset st,
             timestamp := millis0 su \<rparr>)"
  by (simp add: setup0_def readEncoder_result readIMU_result Let_def)

lemma setup0_status:
  "snd (snd (setup0 su st)) = (if usbUp su \<and> sensorsFound su then Returned else Blocked)"
  by (simp add: setup0_def readEncoder_result readIMU_result Let_def)

lemma run_offsets:
  "enc0Offset (fst (run ticks st)) = enc0Offset st \<and> enc1Offset (fst (run ticks st)) = enc1Offset st
   \<and> yawOffset (fst (run ticks st)) = yawOffset st"
proof (induction ticks arbitrary: st)
  case Nil
  show ?case by simp
next
  case (Cons i ticks)
  show ?case
    using Cons [of "fst (loop i st)"] loop_offsets [of i st]
    by (simp add: split_def Let_def split: status.splits)
qed

lemma run_torques:
  "torque0 st = torque1 st \<Longrightarrow> torque0 (fst (run ticks st)) = torque1 (fst (run ticks st))"
proof (induction ticks arbitrary: st)
  case Nil
  then show ?case by simp
next
  case (Cons i ticks)
  have l: "torque0 (fst (loop i st)) = torque1 (fst (loop i st))"
    using Cons.prems by (rule loop_torques)
  show ?case
    using Cons.IH [OF l] l
    by (simp add: split_def Let_def split: status.splits)
qed

lemma program_torques: "torque0 (fst (program su ticks)) = torque1 (fst (program su ticks))"
proof -
  have s: "torque0 (fst (setup0 su initial)) = torque1 (fst (setup0 su initial))"
    by (simp add: setup0_state initial_def)
  show ?thesis
    using s run_torques [OF s, of ticks]
    by (simp add: program_def split_def Let_def split: status.splits)
qed

subsection \<open>The example run\<close>

lemmas eval_defs = loop_def readEncoder_result readIMU_result readErrors_result
  computeTorque_def receiveJointState_def example_defs estop_def Let_def period_defs M_PI_def
  publishSensorStates_def commandTorque_def anyFault_def brake_def setControlMode_def

lemma startup_at_rest: "fst (setup0 (startupAt 0 0) initial) = started"
  by (simp add: setup0_state example_defs initial_def started_def)

lemma after_command:
  "fst (loop (tickOf 1010 0 0 0 HIGH [] [torqueMsg (1/2)])
         started) = commanded"
  by (simp add: eval_defs commanded_def started_def)

lemma after_interlock:
  "loop (tickOf 1010 0 0 0 LOW [(HIGH, sensorsAt 0 0 0)] [torqueMsg (1/2)]) started
     = (commanded,
        fst (snd (loop (tickOf 1010 0 0 0 LOW [(HIGH, sensorsAt 0 0 0)] [torqueMsg (1/2)])
          started)),
        Returned)"
  by (simp add: eval_defs commanded_def started_def)

section \<open>The claims\<close>

text \<open>
  Claim C1, as amended. When \<open>computeTorque\<close> reads the interlock asserted it brakes once
  (it writes velocity control to both axes, then velocity zero to both) and enters the
  sub-loop; every round of the sub-loop in which the interlock still reads asserted writes
  torque control to both axes, commands torque zero on both, reads the encoders and the
  IMU again and publishes them; on release the call writes torque control to both axes
  once more. So when the interlock reads asserted at \<open>N\<close> consecutive tests (the first test
  and \<open>length hs = N - 1\<close> tests of the sub-loop) and released at the next, the call
  returns, the lines that command a motor are exactly those, in that order, with \<open>N\<close> pairs
  of zero set points among them, and the stored torques are untouched; while every test
  reads asserted the call does not return. Normal torque issuance,
  \<open>commandTorque(0, -torque0)\<close> and \<open>commandTorque(1, torque1)\<close>, is what the next call of
  \<open>loop\<close> that passes the gate does first, provided that the interlock reads released and
  the angular rate about x read in that call is below \<open>M_PI\<close>.
\<close>

theorem interlock_hold_then_resume:
  assumes "estop level" and "\<forall>h\<in>set hs. estop (fst h)" and "\<not> estop (fst r)"
    and "\<not> real (unat (millis1 i - timestamp s)) < 1000 * samplingTime"
    and "\<not> estop (pin i)" and "fst (gyro (imu (sens i))) < M_PI"
  shows "snd (snd (computeTorque ts ss level (hs @ r # rest) st)) = Returned
     \<and> filter isActuation (fst (snd (computeTorque ts ss level (hs @ r # rest) st)))
         = [SetVelocity 0 0, SetVelocity 1 0]
           @ concat (replicate (length hs) [WriteInputTorque 0 0, WriteInputTorque 1 0])
     \<and> count_list (fst (snd (computeTorque ts ss level (hs @ r # rest) st))) DigitalRead
         = length hs + 2
     \<and> length (filter isPublishSensors (fst (snd (computeTorque ts ss level (hs @ r # rest) st))))
         = length hs
     \<and> count_list (fst (snd (computeTorque ts ss level (hs @ r # rest) st))) (GetEvent Gyroscope)
         = length hs
     \<and> count_list (fst (snd (computeTorque ts ss level (hs @ r # rest) st))) (GetPosition 0)
         = 2 * length hs
     \<and> torque0 (fst (computeTorque ts ss level (hs @ r # rest) st)) = torque0 st
     \<and> torque1 (fst (computeTorque ts ss level (hs @ r # rest) st)) = torque1 st
     \<and> snd (snd (computeTorque ts ss level hs st)) = Blocked
     \<and> take 2 (filter isActuation (fst (snd (loop i s))))
         = [WriteInputTorque 0 (- torque0 s), WriteInputTorque 1 (torque1 s)]
     \<and> filter isCommand (fst (snd (computeTorque ts ss level (hs @ r # rest) st)))
         = [WriteControlMode 0 CONTROL_MODE_VELOCITY_CONTROL,
            WriteControlMode 1 CONTROL_MODE_VELOCITY_CONTROL,
            SetVelocity 0 0, SetVelocity 1 0]
           @ concat (replicate (length hs)
               [WriteControlMode 0 CONTROL_MODE_TORQUE_CONTROL,
                WriteControlMode 1 CONTROL_MODE_TORQUE_CONTROL,
                WriteInputTorque 0 0, WriteInputTorque 1 0])
           @ [WriteControlMode 0 CONTROL_MODE_TORQUE_CONTROL,
              WriteControlMode 1 CONTROL_MODE_TORQUE_CONTROL]
     \<and> take 2 (filter isCommand (fst (snd (loop i s))))
         = [WriteInputTorque 0 (- torque0 s), WriteInputTorque 1 (torque1 s)]"
  using computeTorque_hold [OF assms(1,2,3), of ts ss rest st]
    computeTorque_blocked [OF assms(1,2), of ts ss st] loop_normal [OF assms(4,5,6)]
    computeTorque_commands [OF assms(1,2,3), of ts ss rest st]
    loop_normal_commands [OF assms(4,5,6)]
  by simp

theorem interlock_hold_then_resume_witness:
  "estop LOW \<and> estop (fst (LOW, sensorsAt 0 0 0))
   \<and> \<not> estop (fst (HIGH, sensorsAt 0 0 0))
   \<and> \<not> real (unat (millis1 (tickOf 1020 0 0 0 HIGH [] []) - timestamp commanded))
        < 1000 * samplingTime
   \<and> \<not> estop (pin (tickOf 1020 0 0 0 HIGH [] []))
   \<and> fst (gyro (imu (sens (tickOf 1020 0 0 0 HIGH [] [])))) < M_PI
   \<and> filter isActuation (fst (snd (computeTorque [] [] LOW
        ([(LOW, sensorsAt 0 0 0), (LOW, sensorsAt 0 0 0)] @ (HIGH, sensorsAt 0 0 0) # []) initial)))
      = [SetVelocity 0 0, SetVelocity 1 0, WriteInputTorque 0 0, WriteInputTorque 1 0,
         WriteInputTorque 0 0, WriteInputTorque 1 0]
   \<and> take 2 (filter isActuation (fst (snd (loop (tickOf 1020 0 0 0 HIGH [] []) commanded))))
      = [WriteInputTorque 0 (- (1/2)), WriteInputTorque 1 (1/2)]
   \<and> filter isCommand (fst (snd (computeTorque [] [] LOW
        ([(LOW, sensorsAt 0 0 0), (LOW, sensorsAt 0 0 0)] @ (HIGH, sensorsAt 0 0 0) # []) initial)))
      = [WriteControlMode 0 CONTROL_MODE_VELOCITY_CONTROL,
         WriteControlMode 1 CONTROL_MODE_VELOCITY_CONTROL,
         SetVelocity 0 0, SetVelocity 1 0,
         WriteControlMode 0 CONTROL_MODE_TORQUE_CONTROL,
         WriteControlMode 1 CONTROL_MODE_TORQUE_CONTROL,
         WriteInputTorque 0 0, WriteInputTorque 1 0,
         WriteControlMode 0 CONTROL_MODE_TORQUE_CONTROL,
         WriteControlMode 1 CONTROL_MODE_TORQUE_CONTROL,
         WriteInputTorque 0 0, WriteInputTorque 1 0,
         WriteControlMode 0 CONTROL_MODE_TORQUE_CONTROL,
         WriteControlMode 1 CONTROL_MODE_TORQUE_CONTROL]
   \<and> take 2 (filter isCommand (fst (snd (loop (tickOf 1020 0 0 0 HIGH [] []) commanded))))
      = [WriteInputTorque 0 (- (1/2)), WriteInputTorque 1 (1/2)]"
proof -
  have h: "estop LOW" "\<forall>h\<in>set [(LOW, sensorsAt 0 0 0), (LOW, sensorsAt 0 0 0)]. estop (fst h)"
    "\<not> estop (fst (HIGH, sensorsAt 0 0 0))"
    "\<not> real (unat (millis1 (tickOf 1020 0 0 0 HIGH [] []) - timestamp commanded))
        < 1000 * samplingTime"
    "\<not> estop (pin (tickOf 1020 0 0 0 HIGH [] []))"
    "fst (gyro (imu (sens (tickOf 1020 0 0 0 HIGH [] [])))) < M_PI"
    by (simp_all add: estop_def example_defs commanded_def period_defs M_PI_def)
  show ?thesis
    using h interlock_hold_then_resume [OF h, of "[]" "[]" "[]" initial]
    by (simp add: commanded_def)
qed

text \<open>
  The claim as it was stated fails where the angular rate is at least \<open>M_PI\<close> in the first
  call after the release. After startup at rest, a call of \<open>loop\<close> reads the interlock
  asserted once and then released, returns, and stores the torque command one half; in
  the next call the interlock reads released and the angular rate is 4: the only motor
  commands of that call are those of the brake.
\<close>

theorem interlock_resume_counterexample:
  "loop (tickOf 1010 0 0 0 LOW [(HIGH, sensorsAt 0 0 0)] [torqueMsg (1/2)])
         (fst (setup0 (startupAt 0 0) initial))
     = (commanded,
        fst (snd (loop (tickOf 1010 0 0 0 LOW [(HIGH, sensorsAt 0 0 0)] [torqueMsg (1/2)])
         (fst (setup0 (startupAt 0 0) initial)))),
        Returned)
   \<and> torque0 commanded = 1/2 \<and> torque1 commanded = 1/2
   \<and> filter isActuation (fst (snd (loop (tickOf 1020 0 0 4 HIGH [] []) commanded)))
      = [SetVelocity 0 0, SetVelocity 1 0]"
proof -
  have b: "filter isActuation (fst (snd (loop (tickOf 1020 0 0 4 HIGH [] []) commanded)))
      = [SetVelocity 0 0, SetVelocity 1 0]"
    by (simp add: eval_defs commanded_def)
  have c: "torque0 commanded = 1/2 \<and> torque1 commanded = 1/2"
    by (simp add: commanded_def)
  show ?thesis
    unfolding startup_at_rest using after_interlock b c by simp
qed

text \<open>
  Claim C2. For two consecutive calls of \<open>readEncoder\<close>, the velocity the second reports
  for an axis is the position it reports minus the position the first reported, divided by
  \<open>samplingTime\<close>, which is the constant 1/100: nothing is averaged and no clock is read
  (the reference timestamp has no influence). The previous positions are the only thing
  kept from one call to the next: each call overwrites them with the positions it
  reports, and neither \<open>readIMU\<close> nor the message callbacks touch them.
\<close>

theorem readEncoder_velocity:
  assumes "oldSpoke1Angle st' = oldSpoke1Angle (fst (snd (readEncoder a1 a2 st)))"
    and "oldSpoke2Angle st' = oldSpoke2Angle (fst (snd (readEncoder a1 a2 st)))"
  shows "fst (readEncoder b1 b2 st') ! 2
           = (fst (readEncoder b1 b2 st') ! 0 - fst (readEncoder a1 a2 st) ! 0) / samplingTime
     \<and> fst (readEncoder b1 b2 st') ! 3
           = (fst (readEncoder b1 b2 st') ! 1 - fst (readEncoder a1 a2 st) ! 1) / samplingTime
     \<and> samplingTime = 1 / 100
     \<and> fst (readEncoder b1 b2 (st'\<lparr> timestamp := t \<rparr>)) = fst (readEncoder b1 b2 st')
     \<and> oldSpoke1Angle (fst (snd (readEncoder b1 b2 st'))) = fst (readEncoder b1 b2 st') ! 0
     \<and> oldSpoke2Angle (fst (snd (readEncoder b1 b2 st'))) = fst (readEncoder b1 b2 st') ! 1
     \<and> oldSpoke1Angle (fst (snd (readIMU j st'))) = oldSpoke1Angle st'
     \<and> oldSpoke2Angle (fst (snd (readIMU j st'))) = oldSpoke2Angle st'
     \<and> oldSpoke1Angle (fst (spinOnce ms st')) = oldSpoke1Angle st'
     \<and> oldSpoke2Angle (fst (spinOnce ms st')) = oldSpoke2Angle st'"
  using assms
  by (simp add: readEncoder_result readIMU_result spinOnce_slots period_defs)

theorem readEncoder_velocity_witness:
  "fst (readEncoder (0, 0) (0.12, - 0.07)
         (fst (snd (readEncoder (0, 0) (0.10, - 0.10) initial)))) ! 2 = - 2
   \<and> fst (readEncoder (0, 0) (0.12, - 0.07)
         (fst (snd (readEncoder (0, 0) (0.10, - 0.10) initial)))) ! 3 = 3"
  using readEncoder_velocity [of "fst (snd (readEncoder (0, 0) (0.10, - 0.10) initial))"
      "(0, 0)" "(0.10, - 0.10)" initial "(0, 0)" "(0.12, - 0.07)" 0 "imuAt 0" "[]"]
  by (simp add: readEncoder_result initial_def period_defs)

text \<open>
  Claim C3. \<open>readErrors\<close> polls the nine fault values in the order device, motor 0 and 1,
  axis 0 and 1, encoder 0 and 1, controller 0 and 1, and returns 1 when at least one of
  them is not zero and 0 otherwise. A call of \<open>loop\<close> publishes the fault message once
  when it passes the gate and a value is not zero, and not at all otherwise; in particular
  not when all nine are zero.
\<close>

theorem fault_publish:
  "fst (readErrors f) = of_bool (anyFault f)
   \<and> (fst (readErrors f) \<noteq> 0) = anyFault f
   \<and> snd (snd (readErrors f))
       = [ReadFault ODriveErrors, ReadFault (MotorErrors 0), ReadFault (MotorErrors 1),
          ReadFault (AxisErrors 0), ReadFault (AxisErrors 1),
          ReadFault (EncoderErrors 0), ReadFault (EncoderErrors 1),
          ReadFault (ControllerErrors 0), ReadFault (ControllerErrors 1)]
   \<and> count_list (fst (snd (loop i st))) PublishErrors
       = (if \<not> real (unat (millis1 i - timestamp st)) < 1000 * samplingTime \<and> anyFault (faults i)
          then 1 else 0)"
  by (simp add: readErrors_result loop_fault_publish)

theorem fault_publish_witness:
  "fst (readErrors noFaults) = 0
   \<and> fst (readErrors (noFaults\<lparr> encoderErr1 := 4 \<rparr>)) = 1
   \<and> count_list (fst (snd (loop (tickOf 1020 0 0 0 HIGH [] []) commanded))) PublishErrors = 0
   \<and> count_list
        (fst (snd (loop ((tickOf 1020 0 0 0 HIGH [] [])\<lparr> faults := noFaults\<lparr> encoderErr1 := 4 \<rparr> \<rparr>)
           commanded))) PublishErrors = 1"
  using fault_publish [of noFaults "tickOf 1020 0 0 0 HIGH [] []" commanded]
    fault_publish [of "noFaults\<lparr> encoderErr1 := 4 \<rparr>"
      "(tickOf 1020 0 0 0 HIGH [] [])\<lparr> faults := noFaults\<lparr> encoderErr1 := 4 \<rparr> \<rparr>" commanded]
  by (simp add: anyFault_def example_defs commanded_def period_defs)

text \<open>
  Claim C4. \<open>calibrateMotor\<close> asks its axis for motor calibration, then encoder offset
  calibration, then closed-loop control, each with one line for that axis, and stops at
  the first request the device does not complete: when the encoder calibration fails or
  times out, closed-loop control is not requested.
\<close>

theorem calibrateMotor_sequence:
  "calibrateMotor motornum run_state
     = take (if \<not> run_state AXIS_STATE_MOTOR_CALIBRATION then 1
             else if \<not> run_state AXIS_STATE_ENCODER_OFFSET_CALIBRATION then 2 else 3)
         [RunState (of_bool motornum) AXIS_STATE_MOTOR_CALIBRATION True None,
          RunState (of_bool motornum) AXIS_STATE_ENCODER_OFFSET_CALIBRATION True (Some 25),
          RunState (of_bool motornum) AXIS_STATE_CLOSED_LOOP_CONTROL False None]
   \<and> (\<not> run_state AXIS_STATE_MOTOR_CALIBRATION \<or> \<not> run_state AXIS_STATE_ENCODER_OFFSET_CALIBRATION
        \<longrightarrow> AXIS_STATE_CLOSED_LOOP_CONTROL
              \<notin> set (concat (map requested (calibrateMotor motornum run_state))))"
  by (simp add: calibrateMotor_def)

theorem calibrateMotor_sequence_witness:
  "\<not> (\<lambda>s. s = AXIS_STATE_MOTOR_CALIBRATION) AXIS_STATE_ENCODER_OFFSET_CALIBRATION
   \<and> concat (map requested (calibrateMotor True (\<lambda>s. s = AXIS_STATE_MOTOR_CALIBRATION)))
       = [AXIS_STATE_MOTOR_CALIBRATION, AXIS_STATE_ENCODER_OFFSET_CALIBRATION]
   \<and> AXIS_STATE_CLOSED_LOOP_CONTROL
       \<notin> set (concat (map requested (calibrateMotor True (\<lambda>s. s = AXIS_STATE_MOTOR_CALIBRATION))))"
  using calibrateMotor_sequence [of True "\<lambda>s. s = AXIS_STATE_MOTOR_CALIBRATION"]
  by simp

text \<open>
  Claim C5, as amended. The condition of the code is on the signed angular rate about x,
  not on its magnitude: when the interlock reads released and the rate is at least
  \<open>M_PI\<close>, \<open>computeTorque\<close> brakes once (velocity control, velocity zero on both axes),
  sets torque control again and returns with the state as it was, after one test of the
  interlock and without reading a sensor, so without entering the sub-loop. Nothing is
  latched: whatever the state, the next call of \<open>loop\<close> that passes the gate with the
  interlock released and a rate below \<open>M_PI\<close> issues the stored torques.
\<close>

theorem overspeed_brake:
  assumes "\<not> estop level" and "M_PI \<le> oldTorsoOmega st"
    and "\<not> real (unat (millis1 i - timestamp s)) < 1000 * samplingTime"
    and "\<not> estop (pin i)" and "fst (gyro (imu (sens i))) < M_PI"
  shows "computeTorque ts ss level hs st
       = (st,
          [DigitalRead,
           WriteControlMode 0 CONTROL_MODE_VELOCITY_CONTROL,
           WriteControlMode 1 CONTROL_MODE_VELOCITY_CONTROL,
           SetVelocity 0 0, SetVelocity 1 0,
           WriteControlMode 0 CONTROL_MODE_TORQUE_CONTROL,
           WriteControlMode 1 CONTROL_MODE_TORQUE_CONTROL],
          Returned)
     \<and> take 2 (filter isActuation (fst (snd (loop i s))))
         = [WriteInputTorque 0 (- torque0 s), WriteInputTorque 1 (torque1 s)]"
  using assms(1,2) loop_normal [OF assms(3,4,5)]
  by (simp add: computeTorque_def brake_def setControlMode_def)

theorem overspeed_brake_witness:
  "\<not> estop HIGH \<and> M_PI \<le> oldTorsoOmega (commanded\<lparr> oldTorsoOmega := 4 \<rparr>)
   \<and> \<not> real (unat (millis1 (tickOf 1020 0 0 0 HIGH [] []) - timestamp (commanded\<lparr> oldTorsoOmega := 4 \<rparr>)))
        < 1000 * samplingTime
   \<and> \<not> estop (pin (tickOf 1020 0 0 0 HIGH [] []))
   \<and> fst (gyro (imu (sens (tickOf 1020 0 0 0 HIGH [] [])))) < M_PI
   \<and> fst (computeTorque [] [] HIGH [] (commanded\<lparr> oldTorsoOmega := 4 \<rparr>))
       = commanded\<lparr> oldTorsoOmega := 4 \<rparr>
   \<and> take 2 (filter isActuation (fst (snd (loop (tickOf 1020 0 0 0 HIGH [] [])
        (commanded\<lparr> oldTorsoOmega := 4 \<rparr>)))))
      = [WriteInputTorque 0 (- (1/2)), WriteInputTorque 1 (1/2)]"
proof -
  have h: "\<not> estop HIGH" "M_PI \<le> oldTorsoOmega (commanded\<lparr> oldTorsoOmega := 4 \<rparr>)"
    "\<not> real (unat (millis1 (tickOf 1020 0 0 0 HIGH [] []) - timestamp (commanded\<lparr> oldTorsoOmega := 4 \<rparr>)))
        < 1000 * samplingTime"
    "\<not> estop (pin (tickOf 1020 0 0 0 HIGH [] []))"
    "fst (gyro (imu (sens (tickOf 1020 0 0 0 HIGH [] [])))) < M_PI"
    by (simp_all add: estop_def example_defs commanded_def period_defs M_PI_def)
  show ?thesis
    using h overspeed_brake [OF h, of "[]" "[]" "[]"]
    by (simp add: commanded_def)
qed

text \<open>
  The claim as it was stated fails for a rate whose magnitude exceeds the bound in the
  negative direction. After startup at rest and a torque command of one half, a call of
  \<open>loop\<close> with the interlock released and the angular rate -4 does not brake: its motor
  commands are the stored torques.
\<close>

theorem overspeed_magnitude_counterexample:
  "\<bar>- 4\<bar> > M_PI
   \<and> fst (loop (tickOf 1010 0 0 0 HIGH [] [torqueMsg (1/2)])
       (fst (setup0 (startupAt 0 0) initial))) = commanded
   \<and> pin (tickOf 1020 0 0 (- 4) HIGH [] []) = HIGH
   \<and> fst (gyro (imu (sens (tickOf 1020 0 0 (- 4) HIGH [] [])))) = - 4
   \<and> filter isActuation (fst (snd (loop (tickOf 1020 0 0 (- 4) HIGH [] []) commanded)))
      = [WriteInputTorque 0 (- (1/2)), WriteInputTorque 1 (1/2)]"
proof -
  have b: "filter isActuation (fst (snd (loop (tickOf 1020 0 0 (- 4) HIGH [] []) commanded)))
      = [WriteInputTorque 0 (- (1/2)), WriteInputTorque 1 (1/2)]"
    by (simp add: eval_defs commanded_def)
  have c: "pin (tickOf 1020 0 0 (- 4) HIGH [] []) = HIGH"
    "fst (gyro (imu (sens (tickOf 1020 0 0 (- 4) HIGH [] [])))) = - 4"
    by (simp_all add: example_defs)
  show ?thesis
    unfolding startup_at_rest using after_command b c by (simp add: M_PI_def)
qed

text \<open>
  Claim C6. When \<open>setup\<close> returns, the three offsets hold what it read after the
  calibration of the motors: the negated position of axis 0, the position of axis 1 and
  the yaw of the filter in radians. No call of \<open>loop\<close> changes them, so for readings taken
  after any two runs the corrected values differ by the difference of the raw readings:
  negated for axis 0, as it is for axis 1 and for the yaw.
\<close>

theorem offsets_fixed:
  assumes "snd (snd (setup0 su initial)) = Returned"
  shows "enc0Offset (fst (setup0 su initial)) = - 1.0 * fst (enc2 (sens0 su))
     \<and> enc1Offset (fst (setup0 su initial)) = snd (enc2 (sens0 su))
     \<and> yawOffset (fst (setup0 su initial)) = filterYaw (imu (sens0 su)) * 1.0 / SENSORS_RADS_TO_DPS
     \<and> enc0Offset (fst (run ticks (fst (setup0 su initial)))) = enc0Offset (fst (setup0 su initial))
     \<and> enc1Offset (fst (run ticks (fst (setup0 su initial)))) = enc1Offset (fst (setup0 su initial))
     \<and> yawOffset (fst (run ticks (fst (setup0 su initial)))) = yawOffset (fst (setup0 su initial))
     \<and> fst (readEncoder b1 b2 (fst (run (ticks @ later) (fst (setup0 su initial))))) ! 0
         - fst (readEncoder a1 a2 (fst (run ticks (fst (setup0 su initial))))) ! 0
         = - (fst b2 - fst a2)
     \<and> fst (readEncoder b1 b2 (fst (run (ticks @ later) (fst (setup0 su initial))))) ! 1
         - fst (readEncoder a1 a2 (fst (run ticks (fst (setup0 su initial))))) ! 1
         = snd b2 - snd a2
     \<and> fst (readIMU j (fst (run (ticks @ later) (fst (setup0 su initial))))) ! 2
         - fst (readIMU i (fst (run ticks (fst (setup0 su initial))))) ! 2
         = filterYaw j * 1.0 / SENSORS_RADS_TO_DPS - filterYaw i * 1.0 / SENSORS_RADS_TO_DPS"
proof -
  have up: "usbUp su \<and> sensorsFound su"
    using assms by (simp add: setup0_status split: if_splits)
  have c: "enc0Offset (fst (setup0 su initial)) = - 1.0 * fst (enc2 (sens0 su))
     \<and> enc1Offset (fst (setup0 su initial)) = snd (enc2 (sens0 su))
     \<and> yawOffset (fst (setup0 su initial)) = filterYaw (imu (sens0 su)) * 1.0 / SENSORS_RADS_TO_DPS"
    using up by (simp add: setup0_state initial_def)
  show ?thesis
    using c run_offsets [of ticks "fst (setup0 su initial)"]
      run_offsets [of "ticks @ later" "fst (setup0 su initial)"]
    by (simp add: readEncoder_result readIMU_result)
qed

theorem offsets_fixed_witness:
  "snd (snd (setup0 (startupAt 0.10 (- 0.10)) initial)) = Returned
   \<and> enc0Offset (fst (run [tickOf 1010 0.12 (- 0.07) 0 HIGH [] []]
        (fst (setup0 (startupAt 0.10 (- 0.10)) initial)))) = - 0.10
   \<and> enc1Offset (fst (run [tickOf 1010 0.12 (- 0.07) 0 HIGH [] []]
        (fst (setup0 (startupAt 0.10 (- 0.10)) initial)))) = - 0.10"
proof -
  have s: "snd (snd (setup0 (startupAt 0.10 (- 0.10)) initial)) = Returned"
    by (simp add: setup0_status startupAt_def)
  show ?thesis
    using s offsets_fixed [OF s, of "[tickOf 1010 0.12 (- 0.07) 0 HIGH [] []]"]
    by (simp add: startupAt_def sensorsAt_def)
qed

text \<open>
  Claim C7. The lever arm of \<open>comAcceleration\<close> is the constant zero vector, and for every
  acceleration, angular rate and angular acceleration about x the function returns the
  acceleration less the cross product of the angular acceleration with the lever arm less
  the cross product of the rate with the cross product of the rate with the lever arm,
  which is the acceleration itself.
\<close>

theorem comAcceleration_formula:
  "comAcceleration a w ax
     = sub3 (sub3 a (cross3 (ax, 0, 0) imuToCOM)) (cross3 w (cross3 w imuToCOM))
   \<and> imuToCOM = (0, 0, 0)
   \<and> comAcceleration a w ax = a"
  by (cases a; cases w)
     (simp add: comAcceleration_zero_arm imuToCOM_def sub3_def cross3_def)

theorem comAcceleration_formula_witness:
  "comAcceleration (1, 2, 3) (4, 5, 6) 7 = (1, 2, 3)"
  using comAcceleration_formula [of "(1, 2, 3)" "(4, 5, 6)" 7]
  by (simp add: sub3_def cross3_def imuToCOM_def)

text \<open>
  The agreement rests on the lever arm being zero. The three calls of \<open>cross\<close> share one
  result array, so with a lever arm of (1, 0, 0), the robot turning about z at rate 1 and
  no acceleration, the body of the function yields the zero vector where the formula
  gives (1, 0, 0).
\<close>

lemma comAccelerationFrom_aliasing:
  "(case comAccelerationFrom (1, 0, 0) (0, 0, 0) (0, 0, 1) 0 statics0 of (p, m) \<Rightarrow> rd3 p m)
     = (0, 0, 0)
   \<and> sub3 (sub3 (0, 0, 0) (cross3 (0, 0, 0) (1, 0, 0))) (cross3 (0, 0, 1) (cross3 (0, 0, 1) (1, 0, 0)))
       = (1, 0, 0)"
  by (simp add: comAccelerationFrom_def cross_def wr_def wr3_def rd3_def statics0_def Let_def
      sub3_def cross3_def)

text \<open>
  What the first call of \<open>loop\<close> after startup publishes, for every input: the corrected
  positions are the differences of the raw readings, negated for axis 0, and each velocity
  is that difference less the position stored at startup, over the sampling period.
\<close>

lemma first_tick_published:
  assumes "usbUp su" and "sensorsFound su"
    and "\<not> real (unat (millis1 i - millis0 su)) < 1000 * samplingTime"
  shows "take 1 (filter isPublishSensors (fst (snd (loop i (fst (setup0 su initial))))))
       = [PublishSensors
           [filterRoll (imu (sens i)) * 1.0 / SENSORS_RADS_TO_DPS,
            - (fst (enc2 (sens i)) - fst (enc2 (sens0 su))),
            snd (enc2 (sens i)) - snd (enc2 (sens0 su)),
            filterYaw (imu (sens i)) * 1.0 / SENSORS_RADS_TO_DPS
              - filterYaw (imu (sens0 su)) * 1.0 / SENSORS_RADS_TO_DPS]
           [fst (gyro (imu (sens i))),
            (- (fst (enc2 (sens i)) - fst (enc2 (sens0 su))) - (- fst (enc2 (sens0 su))))
              / samplingTime,
            (snd (enc2 (sens i)) - snd (enc2 (sens0 su)) - snd (enc2 (sens0 su)))
              / samplingTime]]"
proof -
  let ?st = "fst (setup0 su initial)"
  have e: "\<not> real (unat (millis1 i - timestamp ?st)) < 1000 * samplingTime"
    using assms by (simp add: setup0_state)
  have l: "length (filter isPublishSensors (sensedEvents i ?st)) = 1"
    by (simp add: sensedEvents_result readIMU_result readErrors_result)
  have "take 1 (filter isPublishSensors (fst (snd (loop i ?st))))
      = take 1 (filter isPublishSensors (sensedEvents i ?st))"
    by (simp add: loop_elapsed [OF e] l split: status.splits)
  then show ?thesis
    using assms(1,2)
    by (simp add: sensedEvents_result readIMU_result readErrors_result setup0_state initial_def)
qed

text \<open>
  Claim C8, on the code. In the scenario the raw values, axis 0 sign-inverted, are
  (0.10, -0.10) at startup and (0.12, -0.07) in the first call of \<open>loop\<close>: the device
  answers -0.10 and -0.10, then -0.12 and -0.07. \<open>setup\<close> stores the offsets 0.10 and
  -0.10, and the first call publishes the corrected positions 0.02 and 0.03, as the claim
  has them, but the velocities -0.08 and 0.13 over the sampling period where the claim
  has 0.02 and 0.03 over it: \<open>readEncoder\<close> stored the previous positions when \<open>setup\<close>
  called it, before the offsets were taken, so the first difference contains the offset.
  From the second call on the velocity is the difference of the raw readings over the
  period: with the device at -0.13 and -0.05 next, the velocities are 0.01 and 0.02 over
  it.
\<close>

theorem scenario_first_tick:
  "enc0Offset (fst (setup0 (startupAt (- 0.10) (- 0.10)) initial)) = 0.10
   \<and> enc1Offset (fst (setup0 (startupAt (- 0.10) (- 0.10)) initial)) = - 0.10
   \<and> filter isPublishSensors
        (fst (snd (run [tickOf 1010 (- 0.12) (- 0.07) 0 HIGH [] [],
                        tickOf 1020 (- 0.13) (- 0.05) 0 HIGH [] []]
           (fst (setup0 (startupAt (- 0.10) (- 0.10)) initial)))))
     = [PublishSensors [0, 0.02, 0.03, 0] [0, - 0.08 / samplingTime, 0.13 / samplingTime],
        PublishSensors [0, 0.03, 0.05, 0] [0, 0.01 / samplingTime, 0.02 / samplingTime]]
   \<and> [- 0.08 / samplingTime, 0.13 / samplingTime] \<noteq> [0.02 / samplingTime, 0.03 / samplingTime]"
  by (simp add: setup0_state eval_defs initial_def)

text \<open>
  Claim C9. A call of \<open>loop\<close> reads the clock; when fewer than ten milliseconds (a
  thousand times \<open>samplingTime\<close>) have passed since the reference timestamp, counted
  modulo \<open>2 ^ 32\<close>, it returns with the state as it was, having done nothing else.
  Otherwise it reads the clock a second time, into the reference timestamp, before every
  other output of the call, and the timestamp still holds that reading when the call is
  over.
\<close>

theorem loop_gate:
  "(real (unat (millis1 i - timestamp st)) < 1000 * samplingTime
      \<longrightarrow> loop i st = (st, [Millis], Returned))
   \<and> (\<not> real (unat (millis1 i - timestamp st)) < 1000 * samplingTime
      \<longrightarrow> take 2 (fst (snd (loop i st))) = [Millis, Millis]
        \<and> Millis \<notin> set (drop 2 (fst (snd (loop i st))))
        \<and> timestamp (fst (loop i st)) = millis2 i)
   \<and> 1000 * samplingTime = 10"
proof -
  have d: "Millis \<notin> set (fst (snd (decision i st)))"
    by (simp add: decision_eq [of i st "[]" "[]"] computeTorque_no_clock_no_faults)
  have "\<not> real (unat (millis1 i - timestamp st)) < 1000 * samplingTime
      \<Longrightarrow> take 2 (fst (snd (loop i st))) = [Millis, Millis]
        \<and> Millis \<notin> set (drop 2 (fst (snd (loop i st))))"
    using d
    by (simp add: loop_elapsed sensedEvents_result readIMU_result readErrors_result
        spinOnce_no_clock_no_faults split: status.splits)
  then show ?thesis
    by (simp add: loop_waiting loop_timestamp period_defs)
qed

theorem loop_gate_witness:
  "real (unat (millis1 (tickOf 1015 0 0 0 HIGH [] []) - timestamp commanded)) < 1000 * samplingTime
   \<and> loop (tickOf 1015 0 0 0 HIGH [] []) commanded = (commanded, [Millis], Returned)
   \<and> \<not> real (unat (millis1 (tickOf 1020 0 0 0 HIGH [] []) - timestamp commanded))
        < 1000 * samplingTime
   \<and> timestamp (fst (loop (tickOf 1020 0 0 0 HIGH [] []) commanded)) = 1020"
  using loop_gate [of "tickOf 1015 0 0 0 HIGH [] []" commanded]
    loop_gate [of "tickOf 1020 0 0 0 HIGH [] []" commanded]
  by (simp add: tickOf_def commanded_def period_defs)

text \<open>
  Claim C10. Both stored torques start at zero, and \<open>receiveJointState\<close> sets both to
  \<open>effort[0]\<close> of the message and reads nothing else of it. So in every state the program
  reaches between calls, after startup and any number of calls of \<open>loop\<close>, \<open>torque0\<close>
  equals \<open>torque1\<close>; and when the interlock reads released and the rate is below \<open>M_PI\<close>,
  the control decision commands \<open>-torque0\<close> on axis 0 and \<open>torque1\<close> on axis 1.
\<close>

theorem torques_equal:
  "torque0 (fst (program su ticks)) = torque1 (fst (program su ticks))
   \<and> torque0 initial = 0 \<and> torque1 initial = 0
   \<and> receiveJointState msg st = st\<lparr> torque0 := effort msg 0, torque1 := effort msg 0 \<rparr>
   \<and> (\<not> estop level \<and> oldTorsoOmega st < M_PI \<longrightarrow>
        computeTorque ts ss level hs st
          = (st, [DigitalRead, WriteInputTorque 0 (- torque0 st), WriteInputTorque 1 (torque1 st)],
             Returned))"
  by (simp add: program_torques initial_def receiveJointState_def computeTorque_def
      commandTorque_def)

theorem torques_equal_witness:
  "\<not> estop HIGH \<and> oldTorsoOmega commanded < M_PI
   \<and> fst (program (startupAt 0 0) [tickOf 1010 0 0 0 HIGH [] [torqueMsg (1/2)]]) = commanded
   \<and> torque0 commanded = 1/2 \<and> torque1 commanded = 1/2
   \<and> fst (snd (computeTorque [] [] HIGH [] commanded))
      = [DigitalRead, WriteInputTorque 0 (- (1/2)), WriteInputTorque 1 (1/2)]"
proof -
  have s: "snd (snd (setup0 (startupAt 0 0) initial)) = Returned"
    by (simp add: setup0_status startupAt_def)
  have p: "fst (program (startupAt 0 0) [tickOf 1010 0 0 0 HIGH [] [torqueMsg (1/2)]]) = commanded"
    using s after_command
    by (simp add: program_def split_def Let_def startup_at_rest split: status.splits)
  show ?thesis
    using torques_equal [where su = "startupAt 0 0"
        and ticks = "[tickOf 1010 0 0 0 HIGH [] [torqueMsg (1/2)]]" and level = HIGH
        and st = commanded and ts = "[]" and ss = "[]" and hs = "[]"]
    by (simp add: p estop_def M_PI_def commanded_def)
qed

end
